theory Spec2Isabelle
  imports Main "HOL-Library.Word" "HOL-Library.Signed_Division"
begin

unbundle bit_operations_syntax

section \<open>Durations, counters and constants\<close>

text \<open>
  \<^verbatim>\<open>time.Duration\<close> is a signed 64-bit count of nanoseconds; it is a 64-bit word that
  is compared with the signed order \<open><s\<close> and read with \<open>sint\<close>. The statistics and pause
  counters are \<^verbatim>\<open>uint32\<close>. Go's \<^verbatim>\<open>int\<close> (\<^verbatim>\<open>ReservedCount\<close>, \<^verbatim>\<open>RetryLimit\<close>) is only
  compared, and converted once with \<^verbatim>\<open>uint(retry - 1)\<close>; it is an \<open>int\<close> and the conversion
  is written out as a reduction modulo \<open>2 ^ 64\<close>.
\<close>

type_synonym Duration = "64 word"
type_synonym uint32 = "32 word"

definition Second :: Duration where
  "Second = 1000000000"

definition Minute :: Duration where
  "Minute = 60 * Second"

definition Hour :: Duration where
  "Hour = 60 * Minute"

definition consumerBackoff :: Duration where
  "consumerBackoff = Second"

definition maxBackoff :: Duration where
  "maxBackoff = 12 * Hour"


section \<open>Errors, messages, options and the collaborators\<close>

text \<open>
  An error value. \<open>ErrNotSupported\<close> is the package's sentinel, compared by identity in the
  source. \<open>ErrorString\<close> is any other plain error (\<^verbatim>\<open>errors.New\<close>), \<open>DelayError\<close> an error
  whose dynamic type also implements \<^verbatim>\<open>Delayer\<close>, and \<open>ErrWorkersDidNotStop\<close> the error
  that \<^verbatim>\<open>stopWorkersTimeout\<close> formats from its timeout.
\<close>

datatype error =
    ErrNotSupported
  | ErrorString string
  | DelayError string Duration
  | ErrWorkersDidNotStop Duration

text \<open>The type assertion \<^verbatim>\<open>reason.(Delayer)\<close> followed by \<^verbatim>\<open>delayer.Delay()\<close>.\<close>

fun asDelayer :: "error \<Rightarrow> Duration option" where
  "asDelayer (DelayError s d) = Some d"
| "asDelayer ErrNotSupported = None"
| "asDelayer (ErrorString s) = None"
| "asDelayer (ErrWorkersDidNotStop t) = None"

record Message =
  Name :: string
  Delay :: Duration
  ReservedCount :: int

record Options =
  BufferSize :: nat
  RetryLimit :: int
  MinBackoff :: Duration

text \<open>
  The \<^verbatim>\<open>Queuer\<close> interface, as far as the processor calls it. The backing queue's own
  state is outside the processor: each method is what the call answers.
\<close>

record Queuer =
  ReserveN :: "nat \<Rightarrow> Message list \<times> error option"
  Release :: "Message \<Rightarrow> Duration \<Rightarrow> error option"
  DeleteBatch :: "Message list \<Rightarrow> error option"

text \<open>The lines written with \<^verbatim>\<open>log.Printf\<close>, by the place that writes them.\<close>

datatype logline =
    LogRetryIn Duration error
  | LogReleaseFailed error
  | LogHandlerFailed error
  | LogFallbackFailed error
  | LogDeleteBatchFailed error

text \<open>The calls the processor makes on its collaborators, in the order it makes them.\<close>

datatype event =
    EvHandleMessage Message
  | EvFallbackHandleMessage Message
  | EvQueuerReserveN nat
  | EvQueuerRelease Message Duration
  | EvQueuerDeleteBatch "Message list"
  | EvBatcherAdd Message
  | EvBatcherWait
  | EvAfterFunc Duration Message
  | EvLog logline

section \<open>The processor\<close>

text \<open>
  The fields of \<^verbatim>\<open>Processor\<close>. The channel \<open>ch\<close> is its buffered contents, oldest first;
  \<open>delBatch\<close> is the items handed to the batcher and not flushed yet; \<open>started\<close> is
  \<^verbatim>\<open>_started\<close>. \<open>trace\<close> records the calls made on the collaborators.
\<close>

record Processor =
  q :: Queuer
  opt :: Options
  handler :: "Message \<Rightarrow> error option"
  fallbackHandler :: "(Message \<Rightarrow> error option) option"
  ch :: "Message list"
  delBatch :: "Message list"
  started :: uint32
  errCount :: uint32
  delayCount :: uint32
  delaySec :: uint32
  inFlight :: uint32
  deleting :: uint32
  processed :: uint32
  fails :: uint32
  retries :: uint32
  avgDuration :: uint32
  trace :: "event list"

definition emit :: "event \<Rightarrow> Processor \<Rightarrow> Processor" where
  "emit e p = p\<lparr>trace := trace p @ [e]\<rparr>"

text \<open>The calls made between the state \<open>p\<close> and a later state \<open>p'\<close>.\<close>

definition newEvents :: "Processor \<Rightarrow> Processor \<Rightarrow> event list" where
  "newEvents p p' = drop (length (trace p)) (trace p')"

fun isRelease :: "event \<Rightarrow> bool" where
  "isRelease (EvQueuerRelease m d) = True"
| "isRelease (EvHandleMessage m) = False"
| "isRelease (EvFallbackHandleMessage m) = False"
| "isRelease (EvQueuerReserveN n) = False"
| "isRelease (EvQueuerDeleteBatch ms) = False"
| "isRelease (EvBatcherAdd m) = False"
| "isRelease EvBatcherWait = False"
| "isRelease (EvAfterFunc d m) = False"
| "isRelease (EvLog l) = False"

fun isDelete :: "event \<Rightarrow> bool" where
  "isDelete (EvBatcherAdd m) = True"
| "isDelete (EvQueuerRelease m d) = False"
| "isDelete (EvHandleMessage m) = False"
| "isDelete (EvFallbackHandleMessage m) = False"
| "isDelete (EvQueuerReserveN n) = False"
| "isDelete (EvQueuerDeleteBatch ms) = False"
| "isDelete EvBatcherWait = False"
| "isDelete (EvAfterFunc d m) = False"
| "isDelete (EvLog l) = False"

definition releases :: "event list \<Rightarrow> nat" where
  "releases evs = length (filter isRelease evs)"

definition deletes :: "event list \<Rightarrow> nat" where
  "deletes evs = length (filter isDelete evs)"

subsection \<open>Backoff\<close>

text \<open>
  \<^verbatim>\<open>dur <<= uint(retry - 1)\<close>: the shift count is \<open>retry - 1\<close> converted to an unsigned
  64-bit integer; a left shift of a signed 64-bit value drops the bits that leave the word
  (and gives 0 for a count of 64 or more), which is what \<open>push_bit\<close> does on a word.
\<close>

definition exponentialBackoff :: "Duration \<Rightarrow> int \<Rightarrow> Duration" where
  "exponentialBackoff dur retry =
     (let dur' = push_bit (nat ((retry - 1) mod 2 ^ 64)) dur
      in if maxBackoff <s dur' then maxBackoff else dur')"

subsection \<open>Pausing\<close>

definition paused :: "Processor \<Rightarrow> Duration" where
  "paused p =
     (if 100 < delayCount p then ucast (delaySec p) * Second
      else if 100 < errCount p then Minute
      else 0)"

definition resetPause :: "Processor \<Rightarrow> Processor" where
  "resetPause p = p\<lparr>errCount := 0, delayCount := 0\<rparr>"

subsection \<open>Release and delete\<close>

text \<open>
  \<^verbatim>\<open>uint32(delay/time.Second)\<close>: Go's division truncates towards zero (\<open>sdiv\<close> on \<open>int\<close>),
  and the conversion keeps the low 32 bits. \<open>reasonDelay\<close> is the test
  \<^verbatim>\<open>reason != nil\<close> with the type assertion \<^verbatim>\<open>reason.(Delayer)\<close> and the call of \<^verbatim>\<open>Delay()\<close>.
\<close>

definition reasonDelay :: "error option \<Rightarrow> Duration option" where
  "reasonDelay reason = (case reason of None \<Rightarrow> None | Some e \<Rightarrow> asDelayer e)"

definition releaseBackoff :: "Processor \<Rightarrow> Message \<Rightarrow> error option \<Rightarrow> Processor \<times> Duration" where
  "releaseBackoff p msg reason =
     (case reasonDelay reason of
        Some delay \<Rightarrow>
          ((if Minute <s delay
            then p\<lparr>delaySec := word_of_int (sint delay sdiv sint Second),
                   delayCount := delayCount p + 1\<rparr>
            else p), delay)
      | None \<Rightarrow>
          if 0 <s Delay msg then (p, Delay msg)
          else (p, exponentialBackoff (MinBackoff (opt p)) (ReservedCount msg)))"

definition release :: "Processor \<Rightarrow> Message \<Rightarrow> error option \<Rightarrow> Processor" where
  "release p msg reason =
     (let (p1, delay) = releaseBackoff p msg reason;
          p2 = (case reason of None \<Rightarrow> p1 | Some e \<Rightarrow> emit (EvLog (LogRetryIn delay e)) p1);
          p3 = emit (EvQueuerRelease msg delay) p2;
          p4 = (case Release (q p3) msg delay of
                  None \<Rightarrow> p3
                | Some err \<Rightarrow> emit (EvLog (LogReleaseFailed err)) p3)
      in p4\<lparr>inFlight := inFlight p4 + NOT 0\<rparr>)"

text \<open>
  Modelled from the spec: the Batcher (\<^verbatim>\<open>internal.Batcher\<close> is not among the sources).
  \<^verbatim>\<open>Add\<close> buffers the item; the flush to the sink happens later, on the batcher's side.
\<close>

definition Batcher_Add :: "Processor \<Rightarrow> Message \<Rightarrow> Processor" where
  "Batcher_Add p msg = (emit (EvBatcherAdd msg) p)\<lparr>delBatch := delBatch p @ [msg]\<rparr>"

definition delete :: "Processor \<Rightarrow> Message \<Rightarrow> error option \<Rightarrow> Processor" where
  "delete p msg reason =
     (let p1 = (case reason of
                  None \<Rightarrow> resetPause p
                | Some e \<Rightarrow>
                    (let p' = emit (EvLog (LogHandlerFailed e)) p
                     in case fallbackHandler p' of
                          None \<Rightarrow> p'
                        | Some h \<Rightarrow>
                            (let p'' = emit (EvFallbackHandleMessage msg) p'
                             in case h msg of
                                  None \<Rightarrow> p''
                                | Some err \<Rightarrow> emit (EvLog (LogFallbackFailed err)) p'')));
          p2 = p1\<lparr>inFlight := inFlight p1 + NOT 0\<rparr>;
          p3 = p2\<lparr>deleting := deleting p2 + 1\<rparr>
      in Batcher_Add p3 msg)"

text \<open>
  \<^verbatim>\<open>len(msgs)\<close> is an \<^verbatim>\<open>int\<close>; \<^verbatim>\<open>uint32(len(msgs)-1)\<close> keeps the low 32 bits of
  \<open>len - 1\<close> (all ones for the empty batch), and \<^verbatim>\<open>^\<close> complements them.
\<close>

definition deleteBatch :: "Processor \<Rightarrow> Message list \<Rightarrow> Processor" where
  "deleteBatch p msgs =
     (let p1 = emit (EvQueuerDeleteBatch msgs) p;
          p2 = (case DeleteBatch (q p1) msgs of
                  None \<Rightarrow> p1
                | Some err \<Rightarrow> emit (EvLog (LogDeleteBatchFailed err)) p1)
      in p2\<lparr>deleting := deleting p2 + NOT (word_of_int (int (length msgs) - 1))\<rparr>)"

text \<open>
  Modelled from the spec: \<^verbatim>\<open>Batcher.Wait\<close> (\<^verbatim>\<open>internal.Batcher\<close> is not among the
  sources) returns when the items added before the call have been flushed, and reports the
  first terminal error, if any. The pending items go to the flush function \<open>deleteBatch\<close>;
  the error it reports is the argument \<open>waitErr\<close>.
\<close>

definition Batcher_Wait :: "Processor \<Rightarrow> error option \<Rightarrow> Processor \<times> error option" where
  "Batcher_Wait p waitErr =
     (let p1 = emit EvBatcherWait p;
          p2 = (if delBatch p1 = [] then p1
                else (deleteBatch p1 (delBatch p1))\<lparr>delBatch := []\<rparr>)
      in (p2, waitErr))"

subsection \<open>Processing one message\<close>

text \<open>
  \<^verbatim>\<open>updateAvgDuration\<close> rounds a \<^verbatim>\<open>float64\<close> average of wall-clock samples. Neither the
  clock nor the floating-point arithmetic is modelled: the value it stores, \<open>newAvg\<close>, is an
  input. In a sequential run its compare-and-swap succeeds at the first attempt.
\<close>

definition updateAvgDuration :: "Processor \<Rightarrow> uint32 \<Rightarrow> Processor" where
  "updateAvgDuration p newAvg = p\<lparr>avgDuration := newAvg\<rparr>"

definition Process :: "Processor \<Rightarrow> Message \<Rightarrow> uint32 \<Rightarrow> Processor \<times> error option" where
  "Process p msg newAvg =
     (if 0 <s Delay msg then (release p msg None, None)
      else
        (let p1 = emit (EvHandleMessage msg) p;
             err = handler p1 msg;
             p2 = updateAvgDuration p1 newAvg
         in case err of
              None \<Rightarrow> (delete (p2\<lparr>processed := processed p2 + 1\<rparr>) msg None, None)
            | Some e \<Rightarrow>
                if ReservedCount msg < RetryLimit (opt p2)
                then (release (p2\<lparr>retries := retries p2 + 1\<rparr>) msg (Some e), Some e)
                else (delete (p2\<lparr>fails := fails p2 + 1\<rparr>) msg (Some e), Some e)))"

subsection \<open>Enqueueing\<close>

text \<open>
  A send on the buffered channel completes when the buffer has room. When it is full the
  sending goroutine parks until some other goroutine receives; that the call has not
  returned is the outcome \<open>BlockedOnSend\<close>.
\<close>

datatype 'a outcome = Returned 'a | BlockedOnSend

definition queueMessage :: "Processor \<Rightarrow> Message \<Rightarrow> Processor \<times> unit outcome" where
  "queueMessage p msg =
     (let p1 = p\<lparr>inFlight := inFlight p + 1\<rparr>
      in if length (ch p1) < BufferSize (opt p1)
         then (p1\<lparr>ch := ch p1 @ [msg]\<rparr>, Returned ())
         else (p1, BlockedOnSend))"

definition Add :: "Processor \<Rightarrow> Message \<Rightarrow> Processor \<times> error option outcome" where
  "Add p msg =
     (case queueMessage p msg of
        (p1, Returned u) \<Rightarrow> (p1, Returned None)
      | (p1, BlockedOnSend) \<Rightarrow> (p1, BlockedOnSend))"

text \<open>
  \<^verbatim>\<open>time.AfterFunc\<close> only arms the timer; the send on \<open>ch\<close> is made later by the timer's
  own goroutine, so it cannot hold up the caller.
\<close>

definition AddDelay :: "Processor \<Rightarrow> Message \<Rightarrow> Duration \<Rightarrow> Processor \<times> error option outcome" where
  "AddDelay p msg delay =
     (if delay = 0 then Add p msg
      else
        (let p1 = p\<lparr>inFlight := inFlight p + 1\<rparr>
         in (emit (EvAfterFunc delay msg) p1, Returned None)))"

text \<open>The error a call reports to its caller: none while it has not returned.\<close>

fun reported :: "error option outcome \<Rightarrow> error option" where
  "reported (Returned r) = r"
| "reported BlockedOnSend = None"

subsection \<open>Processing at most one message\<close>

definition reserveOne :: "Processor \<Rightarrow> Processor \<times> (error + Message)" where
  "reserveOne p =
     (case ch p of
        msg # rest \<Rightarrow> (p\<lparr>ch := rest\<rparr>, Inr msg)
      | [] \<Rightarrow>
          (let p1 = emit (EvQueuerReserveN 1) p;
               (msgs, err) = ReserveN (q p1) 1;
               first = (case msgs of
                          [] \<Rightarrow> (p1, Inl (ErrorString ''queue is empty''))
                        | m # ms \<Rightarrow> (p1\<lparr>inFlight := inFlight p1 + 1\<rparr>, Inr m))
           in case err of
                None \<Rightarrow> first
              | Some e \<Rightarrow> if e \<noteq> ErrNotSupported then (p1, Inl e) else first))"

definition ProcessOne :: "Processor \<Rightarrow> uint32 \<Rightarrow> error option \<Rightarrow> Processor \<times> error option" where
  "ProcessOne p newAvg waitErr =
     (case reserveOne p of
        (p1, Inl err) \<Rightarrow> (p1, Some err)
      | (p1, Inr msg) \<Rightarrow>
          (let (p2, retErr) = Process p1 msg newAvg;
               (p3, err) = Batcher_Wait p2 waitErr
           in (p3, if err \<noteq> None \<and> retErr = None then err else retErr)))"

subsection \<open>Stopping\<close>





subsection \<open>Redelivery by the backing queue\<close>

text \<open>
  Modelled from the spec: the backing queue (the backends are not among the sources). A
  released message becomes visible again and is reserved again, and \<open>reserved_count\<close> is
  "incremented by the backend each time the message is reserved". \<open>redeliver n\<close> dispatches
  the message and, as long as the dispatch released it, dispatches it again with the next
  count, at most \<open>n\<close> times; \<open>Pending\<close> says the message was still released after the last
  of them.
\<close>

datatype delivery = Settled | Pending

fun redeliver :: "nat \<Rightarrow> Processor \<Rightarrow> Message \<Rightarrow> uint32 \<Rightarrow> Processor \<times> delivery" where
  "redeliver 0 p msg newAvg = (p, Pending)"
| "redeliver (Suc n) p msg newAvg =
     (case Process p msg newAvg of
        (p', err) \<Rightarrow>
          if 0 < releases (newEvents p p')
          then redeliver n p' (msg\<lparr>ReservedCount := ReservedCount msg + 1\<rparr>) newAvg
          else (p', Settled))"

definition fallbacks :: "event list \<Rightarrow> nat" where
  "fallbacks evs = length (filter (\<lambda>e. case e of EvFallbackHandleMessage m \<Rightarrow> True | _ \<Rightarrow> False) evs)"

section \<open>Example configurations\<close>

definition exQueuer :: Queuer where
  "exQueuer = \<lparr>ReserveN = (\<lambda>n. ([], None)), Release = (\<lambda>m d. None), DeleteBatch = (\<lambda>ms. None)\<rparr>"

definition failingQueuer :: Queuer where
  "failingQueuer =
     \<lparr>ReserveN = (\<lambda>n. ([], Some (ErrorString ''connection refused''))),
      Release = (\<lambda>m d. None), DeleteBatch = (\<lambda>ms. None)\<rparr>"

definition exOptions :: Options where
  "exOptions = \<lparr>BufferSize = 2, RetryLimit = 3, MinBackoff = 30 * Second\<rparr>"

text \<open>A processor as \<^verbatim>\<open>New\<close> leaves it, with a handler that fails on every message.\<close>

definition exProcessor :: Processor where
  "exProcessor =
     \<lparr>q = exQueuer, opt = exOptions,
      handler = (\<lambda>m. Some (ErrorString ''boom'')),
      fallbackHandler = Some (\<lambda>m. None),
      ch = [], delBatch = [], started = 0,
      errCount = 0, delayCount = 0, delaySec = 0,
      inFlight = 0, deleting = 0, processed = 0, fails = 0, retries = 0,
      avgDuration = 0, trace = []\<rparr>"

definition exMessage :: Message where
  "exMessage = \<lparr>Name = ''job'', Delay = 0, ReservedCount = 1\<rparr>"

section \<open>Frame and trace lemmas\<close>

lemma newEvents_append: "trace p' = trace p @ evs \<Longrightarrow> newEvents p p' = evs"
  by (simp add: newEvents_def)

lemma counts_simps [simp]:
  "releases [] = 0" "deletes [] = 0" "fallbacks [] = 0"
  "releases (e # evs) = (if isRelease e then 1 else 0) + releases evs"
  "deletes (e # evs) = (if isDelete e then 1 else 0) + deletes evs"
  "releases (xs @ ys) = releases xs + releases ys"
  "deletes (xs @ ys) = deletes xs + deletes ys"
  "fallbacks (xs @ ys) = fallbacks xs + fallbacks ys"
  by (simp_all add: releases_def deletes_def fallbacks_def)

lemma fallbacks_Cons [simp]:
  "fallbacks (e # evs) = (case e of EvFallbackHandleMessage m \<Rightarrow> 1 | _ \<Rightarrow> 0) + fallbacks evs"
  by (simp add: fallbacks_def split: event.split)

lemma releaseBackoff_frame:
  "q (fst (releaseBackoff p m r)) = q p"
  "opt (fst (releaseBackoff p m r)) = opt p"
  "handler (fst (releaseBackoff p m r)) = handler p"
  "fallbackHandler (fst (releaseBackoff p m r)) = fallbackHandler p"
  "trace (fst (releaseBackoff p m r)) = trace p"
  "inFlight (fst (releaseBackoff p m r)) = inFlight p"
  "errCount (fst (releaseBackoff p m r)) = errCount p"
  "retries (fst (releaseBackoff p m r)) = retries p"
  "fails (fst (releaseBackoff p m r)) = fails p"
  "processed (fst (releaseBackoff p m r)) = processed p"
  "avgDuration (fst (releaseBackoff p m r)) = avgDuration p"
  by (simp_all add: releaseBackoff_def split: option.split)


lemma release_trace:
  "trace (release p m r) = trace p @
     (case r of None \<Rightarrow> [] | Some e \<Rightarrow> [EvLog (LogRetryIn (snd (releaseBackoff p m r)) e)])
     @ [EvQueuerRelease m (snd (releaseBackoff p m r))]
     @ (case Release (q p) m (snd (releaseBackoff p m r)) of None \<Rightarrow> [] | Some err \<Rightarrow> [EvLog (LogReleaseFailed err)])"
  using releaseBackoff_frame(1,5)[of p m r]
  by (cases "releaseBackoff p m r") (auto simp add: release_def Let_def emit_def split: option.split)

lemma release_frame:
  "q (release p m r) = q p"
  "opt (release p m r) = opt p"
  "handler (release p m r) = handler p"
  "fallbackHandler (release p m r) = fallbackHandler p"
  "inFlight (release p m r) = inFlight p - 1"
  "errCount (release p m r) = errCount p"
  "retries (release p m r) = retries p"
  "fails (release p m r) = fails p"
  "processed (release p m r) = processed p"
  "avgDuration (release p m r) = avgDuration p"
  using releaseBackoff_frame[of p m r]
  by (cases "releaseBackoff p m r"; simp add: release_def Let_def emit_def split: option.split)+


lemma release_counts:
  "\<exists>evs. trace (release p m r) = trace p @ evs \<and> releases evs = 1 \<and> deletes evs = 0 \<and> fallbacks evs = 0"
  by (simp add: release_trace split: option.split)

lemma delete_frame:
  "q (delete p m r) = q p"
  "opt (delete p m r) = opt p"
  "handler (delete p m r) = handler p"
  "fallbackHandler (delete p m r) = fallbackHandler p"
  "inFlight (delete p m r) = inFlight p - 1"
  "deleting (delete p m r) = deleting p + 1"
  "retries (delete p m r) = retries p"
  "fails (delete p m r) = fails p"
  "processed (delete p m r) = processed p"
  "avgDuration (delete p m r) = avgDuration p"
  "errCount (delete p m r) = (if r = None then 0 else errCount p)"
  by (simp_all add: delete_def Batcher_Add_def resetPause_def Let_def emit_def split: option.split)

lemma delete_counts:
  "\<exists>evs. trace (delete p m r) = trace p @ evs \<and> releases evs = 0 \<and> deletes evs = 1
     \<and> fallbacks evs = (if r \<noteq> None \<and> fallbackHandler p \<noteq> None then 1 else 0)"
  by (auto simp add: delete_def Batcher_Add_def resetPause_def Let_def emit_def split: option.split)

lemma Process_cases:
  "Process p msg s =
     (if 0 <s Delay msg then (release p msg None, None)
      else case handler p msg of
             None \<Rightarrow> (delete ((updateAvgDuration (emit (EvHandleMessage msg) p) s)\<lparr>processed := processed p + 1\<rparr>) msg None, None)
           | Some e \<Rightarrow>
               if ReservedCount msg < RetryLimit (opt p)
               then (release ((updateAvgDuration (emit (EvHandleMessage msg) p) s)\<lparr>retries := retries p + 1\<rparr>) msg (Some e), Some e)
               else (delete ((updateAvgDuration (emit (EvHandleMessage msg) p) s)\<lparr>fails := fails p + 1\<rparr>) msg (Some e), Some e))"
  by (simp add: Process_def Let_def updateAvgDuration_def emit_def split: option.split)

lemma Process_frame:
  "q (fst (Process p m s)) = q p"
  "opt (fst (Process p m s)) = opt p"
  "handler (fst (Process p m s)) = handler p"
  "fallbackHandler (fst (Process p m s)) = fallbackHandler p"
  "inFlight (fst (Process p m s)) = inFlight p - 1"
  by (simp_all add: Process_cases release_frame delete_frame updateAvgDuration_def emit_def split: option.split)

lemma Process_counts:
  "\<exists>evs. trace (fst (Process p m s)) = trace p @ evs \<and> releases evs + deletes evs = 1"
proof (cases "0 <s Delay m")
  case True
  then show ?thesis using release_counts[of p m None] by (auto simp add: Process_cases)
next
  case False
  let ?p1 = "updateAvgDuration (emit (EvHandleMessage m) p) s"
  have t1: "\<And>f. trace (f ?p1) = trace ?p1 \<Longrightarrow> trace (f ?p1) = trace p @ [EvHandleMessage m]"
    by (simp add: updateAvgDuration_def emit_def)
  show ?thesis
  proof (cases "handler p m")
    case None
    obtain evs where "trace (delete (?p1\<lparr>processed := processed p + 1\<rparr>) m None) = trace (?p1\<lparr>processed := processed p + 1\<rparr>) @ evs"
       "releases evs = 0" "deletes evs = 1"
      using delete_counts[of "?p1\<lparr>processed := processed p + 1\<rparr>" m None] by blast
    then show ?thesis using False None
      by (intro exI[of _ "EvHandleMessage m # evs"]) (simp add: Process_cases updateAvgDuration_def emit_def)
  next
    case (Some e)
    show ?thesis
    proof (cases "ReservedCount m < RetryLimit (opt p)")
      case True
      obtain evs where "trace (release (?p1\<lparr>retries := retries p + 1\<rparr>) m (Some e)) = trace (?p1\<lparr>retries := retries p + 1\<rparr>) @ evs"
         "releases evs = 1" "deletes evs = 0"
        using release_counts[of "?p1\<lparr>retries := retries p + 1\<rparr>" m "Some e"] by blast
      then show ?thesis using False Some True
        by (intro exI[of _ "EvHandleMessage m # evs"]) (simp add: Process_cases updateAvgDuration_def emit_def)
    next
      case F2: False
      obtain evs where "trace (delete (?p1\<lparr>fails := fails p + 1\<rparr>) m (Some e)) = trace (?p1\<lparr>fails := fails p + 1\<rparr>) @ evs"
         "releases evs = 0" "deletes evs = 1"
        using delete_counts[of "?p1\<lparr>fails := fails p + 1\<rparr>" m "Some e"] by blast
      then show ?thesis using False Some F2
        by (intro exI[of _ "EvHandleMessage m # evs"]) (simp add: Process_cases updateAvgDuration_def emit_def)
    qed
  qed
qed

lemma Process_trace_full:
  "\<exists>evs. trace (fst (Process p m s)) = trace p @ evs \<and> releases evs + deletes evs = 1
     \<and> (0 < releases evs \<longleftrightarrow> (0 <s Delay m \<or> (handler p m \<noteq> None \<and> ReservedCount m < RetryLimit (opt p))))
     \<and> retries (fst (Process p m s)) = retries p + (if \<not> 0 <s Delay m \<and> 0 < releases evs then 1 else 0)
     \<and> fails (fst (Process p m s)) = fails p + (if \<not> 0 <s Delay m \<and> handler p m \<noteq> None \<and> \<not> ReservedCount m < RetryLimit (opt p) then 1 else 0)
     \<and> fallbacks evs = (if \<not> 0 <s Delay m \<and> handler p m \<noteq> None \<and> \<not> ReservedCount m < RetryLimit (opt p) \<and> fallbackHandler p \<noteq> None then 1 else 0)"
proof (cases "0 <s Delay m")
  case True
  then show ?thesis using release_counts[of p m None] by (auto simp add: Process_cases release_frame)
next
  case False
  let ?p1 = "updateAvgDuration (emit (EvHandleMessage m) p) s"
  show ?thesis
  proof (cases "handler p m")
    case None
    obtain evs where "trace (delete (?p1\<lparr>processed := processed p + 1\<rparr>) m None) = trace (?p1\<lparr>processed := processed p + 1\<rparr>) @ evs"
       "releases evs = 0" "deletes evs = 1" "fallbacks evs = 0"
      using delete_counts[of "?p1\<lparr>processed := processed p + 1\<rparr>" m None] by auto
    then show ?thesis using False None
      by (intro exI[of _ "EvHandleMessage m # evs"]) (simp add: Process_cases delete_frame updateAvgDuration_def emit_def)
  next
    case (Some e)
    show ?thesis
    proof (cases "ReservedCount m < RetryLimit (opt p)")
      case True
      obtain evs where "trace (release (?p1\<lparr>retries := retries p + 1\<rparr>) m (Some e)) = trace (?p1\<lparr>retries := retries p + 1\<rparr>) @ evs"
         "releases evs = 1" "deletes evs = 0" "fallbacks evs = 0"
        using release_counts[of "?p1\<lparr>retries := retries p + 1\<rparr>" m "Some e"] by blast
      then show ?thesis using False Some True
        by (intro exI[of _ "EvHandleMessage m # evs"]) (simp add: Process_cases release_frame updateAvgDuration_def emit_def)
    next
      case F2: False
      obtain evs where "trace (delete (?p1\<lparr>fails := fails p + 1\<rparr>) m (Some e)) = trace (?p1\<lparr>fails := fails p + 1\<rparr>) @ evs"
         "releases evs = 0" "deletes evs = 1" "fallbacks evs = (if fallbackHandler p \<noteq> None then 1 else 0)"
        using delete_counts[of "?p1\<lparr>fails := fails p + 1\<rparr>" m "Some e"] by (auto simp: updateAvgDuration_def emit_def)
      then show ?thesis using False Some F2
        by (intro exI[of _ "EvHandleMessage m # evs"]) (simp add: Process_cases delete_frame updateAvgDuration_def emit_def)
    qed
  qed
qed

lemma Process_trace_nodelay:
  assumes "\<not> 0 <s Delay m"
  shows "\<exists>evs. trace (fst (Process p m s)) = trace p @ evs \<and> releases evs + deletes evs = 1
     \<and> (0 < releases evs \<longleftrightarrow> (handler p m \<noteq> None \<and> ReservedCount m < RetryLimit (opt p)))
     \<and> retries (fst (Process p m s)) = retries p + (if 0 < releases evs then 1 else 0)
     \<and> fails (fst (Process p m s)) = fails p + (if handler p m \<noteq> None \<and> \<not> ReservedCount m < RetryLimit (opt p) then 1 else 0)
     \<and> fallbacks evs = (if handler p m \<noteq> None \<and> \<not> ReservedCount m < RetryLimit (opt p) \<and> fallbackHandler p \<noteq> None then 1 else 0)"
  using Process_trace_full[of p m s] assms by simp

lemma redeliver_bound:
  assumes "\<not> 0 <s Delay msg" and "nat (RetryLimit (opt p) - ReservedCount msg) < n"
  shows "\<exists>evs. trace (fst (redeliver n p msg s)) = trace p @ evs
           \<and> snd (redeliver n p msg s) = Settled
           \<and> releases evs \<le> nat (RetryLimit (opt p) - ReservedCount msg)
           \<and> deletes evs = 1
           \<and> retries (fst (redeliver n p msg s)) = retries p + word_of_nat (releases evs)
           \<and> ((\<forall>k. handler p (msg\<lparr>ReservedCount := k\<rparr>) \<noteq> None) \<longrightarrow>
                 releases evs = nat (RetryLimit (opt p) - ReservedCount msg)
                 \<and> fails (fst (redeliver n p msg s)) = fails p + 1
                 \<and> fallbacks evs = (if fallbackHandler p = None then 0 else 1))"
  using assms
proof (induction n arbitrary: p msg)
  case 0
  then show ?case by simp
next
  case (Suc n)
  let ?p' = "fst (Process p msg s)"
  let ?msg' = "msg\<lparr>ReservedCount := ReservedCount msg + 1\<rparr>"
  obtain evs1 where e1all: "trace ?p' = trace p @ evs1 \<and> releases evs1 + deletes evs1 = 1
     \<and> (0 < releases evs1 \<longleftrightarrow> (handler p msg \<noteq> None \<and> ReservedCount msg < RetryLimit (opt p)))
     \<and> retries ?p' = retries p + (if 0 < releases evs1 then 1 else 0)
     \<and> fails ?p' = fails p + (if handler p msg \<noteq> None \<and> \<not> ReservedCount msg < RetryLimit (opt p) then 1 else 0)
     \<and> fallbacks evs1 = (if handler p msg \<noteq> None \<and> \<not> ReservedCount msg < RetryLimit (opt p) \<and> fallbackHandler p \<noteq> None then 1 else 0)"
    using Process_trace_nodelay[OF Suc.prems(1), of p s] by (rule exE)
  have e1: "trace ?p' = trace p @ evs1" "releases evs1 + deletes evs1 = 1"
     "0 < releases evs1 \<longleftrightarrow> (handler p msg \<noteq> None \<and> ReservedCount msg < RetryLimit (opt p))"
     "retries ?p' = retries p + (if 0 < releases evs1 then 1 else 0)"
     "fails ?p' = fails p + (if handler p msg \<noteq> None \<and> \<not> ReservedCount msg < RetryLimit (opt p) then 1 else 0)"
     "fallbacks evs1 = (if handler p msg \<noteq> None \<and> \<not> ReservedCount msg < RetryLimit (opt p) \<and> fallbackHandler p \<noteq> None then 1 else 0)"
    using e1all by simp_all
  have ne: "newEvents p ?p' = evs1" using e1(1) by (rule newEvents_append)
  have hm: "\<forall>k. handler p (msg\<lparr>ReservedCount := k\<rparr>) \<noteq> None \<Longrightarrow> handler p msg \<noteq> None"
  proof -
    assume a: "\<forall>k. handler p (msg\<lparr>ReservedCount := k\<rparr>) \<noteq> None"
    have "msg\<lparr>ReservedCount := ReservedCount msg\<rparr> = msg" by simp
    with a[rule_format, of "ReservedCount msg"] show ?thesis by simp
  qed
  show ?case
  proof (cases "0 < releases evs1")
    case True
    then have lt: "ReservedCount msg < RetryLimit (opt p)" using e1(3) by simp
    have d1: "\<not> 0 <s Delay ?msg'" using Suc.prems(1) by simp
    have f1: "nat (RetryLimit (opt ?p') - ReservedCount ?msg') < n"
      using Suc.prems(2) lt by (simp add: Process_frame)
    obtain evs2 where e2: "trace (fst (redeliver n ?p' ?msg' s)) = trace ?p' @ evs2"
      "snd (redeliver n ?p' ?msg' s) = Settled"
      "releases evs2 \<le> nat (RetryLimit (opt ?p') - ReservedCount ?msg')"
      "deletes evs2 = 1"
      "retries (fst (redeliver n ?p' ?msg' s)) = retries ?p' + word_of_nat (releases evs2)"
      "(\<forall>k. handler ?p' (?msg'\<lparr>ReservedCount := k\<rparr>) \<noteq> None) \<longrightarrow>
                 releases evs2 = nat (RetryLimit (opt ?p') - ReservedCount ?msg')
                 \<and> fails (fst (redeliver n ?p' ?msg' s)) = fails ?p' + 1
                 \<and> fallbacks evs2 = (if fallbackHandler ?p' = None then 0 else 1)"
      using Suc.IH[OF d1 f1] by blast
    have step: "redeliver (Suc n) p msg s = redeliver n ?p' ?msg' s"
      using True ne by (simp add: case_prod_beta)
    have del0: "deletes evs1 = 0" "releases evs1 = 1" using True e1(2) by auto
    have fb0: "fallbacks evs1 = 0" "fails ?p' = fails p" using lt e1(5,6) by auto
    show ?thesis
      apply (rule exI[of _ "evs1 @ evs2"])
      using e1(1,4) e2 del0 fb0 lt True
      by (auto simp add: step Process_frame simp del: redeliver.simps)
  next
    case False
    then have step: "redeliver (Suc n) p msg s = (?p', Settled)"
      using ne by (simp add: case_prod_beta)
    have r0: "releases evs1 = 0" "deletes evs1 = 1" using False e1(2) by auto
    show ?thesis
    proof (cases "\<forall>k. handler p (msg\<lparr>ReservedCount := k\<rparr>) \<noteq> None")
      case allfail: True
      then have "handler p msg \<noteq> None" by (rule hm)
      then show ?thesis
        using e1 r0 allfail by (intro exI[of _ evs1]) (simp add: step del: redeliver.simps)
    next
      case somepass: False
      then show ?thesis
        using e1 r0 by (intro exI[of _ evs1]) (simp add: step del: redeliver.simps)
    qed
  qed
qed

section \<open>Terminal transitions\<close>

text \<open>
  Claim C1. Every dispatch of a message by \<open>Process\<close> makes exactly one terminal
  transition: among the calls it makes there is either one \<^verbatim>\<open>Queuer.Release\<close> (the call
  made by \<open>release\<close>) or one hand-over to the batcher (the call made by \<open>delete\<close>), never
  both and never neither. \<open>release\<close> and \<open>delete\<close> each take one off \<open>inFlight\<close>, and so
  the dispatch as a whole takes exactly one off \<open>inFlight\<close>.
\<close>

theorem Process_exactly_one_terminal:
  "releases (newEvents p (fst (Process p msg s))) + deletes (newEvents p (fst (Process p msg s))) = 1
   \<and> inFlight (fst (Process p msg s)) = inFlight p - 1
   \<and> inFlight (release p msg reason) = inFlight p - 1
   \<and> inFlight (delete p msg reason) = inFlight p - 1"
proof -
  obtain evs where "trace (fst (Process p msg s)) = trace p @ evs" "releases evs + deletes evs = 1"
    using Process_counts by blast
  then show ?thesis
    by (simp add: newEvents_append Process_frame release_frame delete_frame)
qed

section \<open>Retry or fail\<close>

text \<open>
  Claim C2. When the handler is invoked on a message and fails with \<open>e\<close>: if
  \<open>ReservedCount msg < RetryLimit\<close> the \<open>retries\<close> counter is incremented and
  \<open>release msg (Some e)\<close> is called, otherwise the \<open>fails\<close> counter is incremented and
  \<open>delete msg (Some e)\<close> is called. Hence, for a message whose first reservation has a
  count of at least 1 and that the backing queue reserves again after each release, the
  redelivery settles: the message is released at most \<open>RetryLimit - 1\<close> times and handed to
  the batcher for deletion exactly once; and when the handler fails at every attempt, the
  number of releases is \<open>RetryLimit - ReservedCount\<close>, \<open>fails\<close> is incremented once, and the
  fallback handler, if one is configured, is invoked once.
\<close>

theorem Process_failure_retry_or_fail:
  "(\<not> 0 <s Delay msg \<and> handler p msg = Some e \<longrightarrow>
      Process p msg s =
        (if ReservedCount msg < RetryLimit (opt p)
         then (release ((updateAvgDuration (emit (EvHandleMessage msg) p) s)\<lparr>retries := retries p + 1\<rparr>)
                 msg (Some e), Some e)
         else (delete ((updateAvgDuration (emit (EvHandleMessage msg) p) s)\<lparr>fails := fails p + 1\<rparr>)
                 msg (Some e), Some e)))
   \<and> (\<not> 0 <s Delay msg \<and> 1 \<le> ReservedCount msg
        \<and> nat (RetryLimit (opt p) - ReservedCount msg) < n \<longrightarrow>
        snd (redeliver n p msg s) = Settled
        \<and> releases (newEvents p (fst (redeliver n p msg s))) \<le> nat (RetryLimit (opt p) - 1)
        \<and> deletes (newEvents p (fst (redeliver n p msg s))) = 1
        \<and> retries (fst (redeliver n p msg s))
            = retries p + word_of_nat (releases (newEvents p (fst (redeliver n p msg s))))
        \<and> ((\<forall>k. handler p (msg\<lparr>ReservedCount := k\<rparr>) \<noteq> None) \<longrightarrow>
              releases (newEvents p (fst (redeliver n p msg s)))
                = nat (RetryLimit (opt p) - ReservedCount msg)
              \<and> fails (fst (redeliver n p msg s)) = fails p + 1
              \<and> fallbacks (newEvents p (fst (redeliver n p msg s)))
                  = (if fallbackHandler p = None then 0 else 1)))"
proof (intro conjI impI)
  assume "\<not> 0 <s Delay msg \<and> handler p msg = Some e"
  then show "Process p msg s =
        (if ReservedCount msg < RetryLimit (opt p)
         then (release ((updateAvgDuration (emit (EvHandleMessage msg) p) s)\<lparr>retries := retries p + 1\<rparr>)
                 msg (Some e), Some e)
         else (delete ((updateAvgDuration (emit (EvHandleMessage msg) p) s)\<lparr>fails := fails p + 1\<rparr>)
                 msg (Some e), Some e))"
    by (simp add: Process_cases)
next
  assume a: "\<not> 0 <s Delay msg \<and> 1 \<le> ReservedCount msg
        \<and> nat (RetryLimit (opt p) - ReservedCount msg) < n"
  then obtain evs where ev: "trace (fst (redeliver n p msg s)) = trace p @ evs
           \<and> snd (redeliver n p msg s) = Settled
           \<and> releases evs \<le> nat (RetryLimit (opt p) - ReservedCount msg)
           \<and> deletes evs = 1
           \<and> retries (fst (redeliver n p msg s)) = retries p + word_of_nat (releases evs)
           \<and> ((\<forall>k. handler p (msg\<lparr>ReservedCount := k\<rparr>) \<noteq> None) \<longrightarrow>
                 releases evs = nat (RetryLimit (opt p) - ReservedCount msg)
                 \<and> fails (fst (redeliver n p msg s)) = fails p + 1
                 \<and> fallbacks evs = (if fallbackHandler p = None then 0 else 1))"
    using redeliver_bound[of msg p n s] by blast
  then have ne: "newEvents p (fst (redeliver n p msg s)) = evs"
    by (simp add: newEvents_append)
  from a have "1 \<le> ReservedCount msg" by simp
  then have le: "nat (RetryLimit (opt p) - ReservedCount msg) \<le> nat (RetryLimit (opt p) - 1)"
    by linarith
  show "snd (redeliver n p msg s) = Settled" using ev by simp
  show "releases (newEvents p (fst (redeliver n p msg s))) \<le> nat (RetryLimit (opt p) - 1)"
    using ev le unfolding ne by linarith
  show "deletes (newEvents p (fst (redeliver n p msg s))) = 1" using ev unfolding ne by simp
  show "retries (fst (redeliver n p msg s))
            = retries p + word_of_nat (releases (newEvents p (fst (redeliver n p msg s))))"
    using ev unfolding ne by simp
  {
    assume "\<forall>k. handler p (msg\<lparr>ReservedCount := k\<rparr>) \<noteq> None"
    with ev have r: "releases evs = nat (RetryLimit (opt p) - ReservedCount msg)
                 \<and> fails (fst (redeliver n p msg s)) = fails p + 1
                 \<and> fallbacks evs = (if fallbackHandler p = None then 0 else 1)" by blast
    show "releases (newEvents p (fst (redeliver n p msg s)))
                = nat (RetryLimit (opt p) - ReservedCount msg)" using r unfolding ne by simp
    show "fails (fst (redeliver n p msg s)) = fails p + 1" using r by simp
    show "fallbacks (newEvents p (fst (redeliver n p msg s)))
                  = (if fallbackHandler p = None then 0 else 1)" using r unfolding ne by simp
  }
qed

text \<open>
  The theorem at the example processor (retry limit 3, a handler that always fails, a
  fallback handler): the message of count 1 is released twice, then deleted.
\<close>

theorem Process_failure_retry_or_fail_witness:
  "\<not> 0 <s Delay exMessage \<and> handler exProcessor exMessage = Some (ErrorString ''boom'')
   \<and> 1 \<le> ReservedCount exMessage
   \<and> nat (RetryLimit (opt exProcessor) - ReservedCount exMessage) < 3
   \<and> (\<forall>k. handler exProcessor (exMessage\<lparr>ReservedCount := k\<rparr>) \<noteq> None)
   \<and> fst (Process exProcessor exMessage 0)
       = release ((updateAvgDuration (emit (EvHandleMessage exMessage) exProcessor) 0)
                    \<lparr>retries := retries exProcessor + 1\<rparr>) exMessage (Some (ErrorString ''boom''))
   \<and> snd (redeliver 3 exProcessor exMessage 0) = Settled
   \<and> releases (newEvents exProcessor (fst (redeliver 3 exProcessor exMessage 0))) = 2
   \<and> deletes (newEvents exProcessor (fst (redeliver 3 exProcessor exMessage 0))) = 1
   \<and> fails (fst (redeliver 3 exProcessor exMessage 0)) = 1
   \<and> fallbacks (newEvents exProcessor (fst (redeliver 3 exProcessor exMessage 0))) = 1"
proof -
  have h1: "\<not> 0 <s Delay exMessage" by (simp add: exMessage_def)
  have h2: "handler exProcessor exMessage = Some (ErrorString ''boom'')"
    by (simp add: exProcessor_def)
  have h3: "1 \<le> ReservedCount exMessage" by (simp add: exMessage_def)
  have h4: "nat (RetryLimit (opt exProcessor) - ReservedCount exMessage) < 3"
    by (simp add: exProcessor_def exOptions_def exMessage_def)
  have h5: "\<forall>k. handler exProcessor (exMessage\<lparr>ReservedCount := k\<rparr>) \<noteq> None"
    by (simp add: exProcessor_def)
  have v: "RetryLimit (opt exProcessor) = 3" "ReservedCount exMessage = 1"
    "fails exProcessor = 0" "fallbackHandler exProcessor \<noteq> None" "retries exProcessor = 0"
    by (simp_all add: exProcessor_def exOptions_def exMessage_def)
  show ?thesis
    using Process_failure_retry_or_fail [of exMessage exProcessor "ErrorString ''boom''" 0 3]
      h1 h2 h3 h4 h5 v
    by simp
qed

section \<open>The delay of a release\<close>

lemma sint_Second: "sint Second = 1000000000" by (simp add: Second_def)
lemma sint_Minute: "sint Minute = 60000000000" by (simp add: Minute_def Second_def)

lemma delay_seconds:
  assumes "Minute <s d"
  shows "sint d sdiv sint Second = sint d div 1000000000"
proof -
  have "0 < sint d" using assms by (simp add: word_sless_alt sint_Minute)
  then show ?thesis by (simp add: signed_divide_int_def sint_Second)
qed

lemma unat_word_of_int_32:
  assumes "0 \<le> k"
  shows "unat (word_of_int k :: 32 word) = nat k mod 2 ^ 32"
proof -
  have "unat (word_of_int k :: 32 word) = nat (k mod 2 ^ 32)"
    by (simp add: unat_eq_nat_uint uint_word_of_int)
  also have "\<dots> = nat k mod 2 ^ 32"
    using assms by (simp add: nat_mod_distrib)
  finally show ?thesis .
qed

lemma reasonDelay_no_capability:
  assumes "\<forall>t' d'. reason \<noteq> Some (DelayError t' d')"
  shows "reasonDelay reason = None"
proof (cases reason)
  case None
  then show ?thesis by (simp add: reasonDelay_def)
next
  case (Some e)
  with assms show ?thesis by (cases e) (simp_all add: reasonDelay_def)
qed

text \<open>
  Claim C3, as amended. The delay of a release is chosen with this precedence. If the
  reason exposes a \<^verbatim>\<open>Delay()\<close> capability (it is a \<open>DelayError\<close>), its delay is used, and
  when that delay exceeds one minute \<open>delayCount\<close> is incremented and \<open>delaySec\<close> is set to
  the delay in whole seconds reduced modulo \<open>2 ^ 32\<close>, the low 32 bits that the counter
  keeps; this is the number of seconds itself for every delay below \<open>2 ^ 32\<close> seconds. For
  every reason without the capability (\<^verbatim>\<open>nil\<close> included) the processor is left as it is,
  and if \<open>Delay msg > 0\<close> that value is used, otherwise the delay is
  \<open>exponentialBackoff (MinBackoff opt) (ReservedCount msg)\<close>. \<open>release\<close> passes exactly this
  delay to \<^verbatim>\<open>Queuer.Release\<close> and leaves the two pause counters as \<open>releaseBackoff\<close> set
  them.
\<close>

theorem release_delay_precedence:
  "releaseBackoff p msg (Some (DelayError t d)) =
     ((if Minute <s d
       then p\<lparr>delaySec := word_of_int (sint d div 1000000000),
              delayCount := delayCount p + 1\<rparr>
       else p), d)
   \<and> (Minute <s d \<longrightarrow>
        unat (delaySec (fst (releaseBackoff p msg (Some (DelayError t d)))))
          = nat (sint d div 1000000000) mod 2 ^ 32)
   \<and> (Minute <s d \<and> sint d < 2 ^ 32 * 1000000000 \<longrightarrow>
        unat (delaySec (fst (releaseBackoff p msg (Some (DelayError t d)))))
          = nat (sint d div 1000000000))
   \<and> ((\<forall>t' d'. reason \<noteq> Some (DelayError t' d')) \<longrightarrow>
        releaseBackoff p msg reason =
          (p, if 0 <s Delay msg then Delay msg
              else exponentialBackoff (MinBackoff (opt p)) (ReservedCount msg)))
   \<and> filter isRelease (newEvents p (release p msg reason))
       = [EvQueuerRelease msg (snd (releaseBackoff p msg reason))]
   \<and> delaySec (release p msg reason) = delaySec (fst (releaseBackoff p msg reason))
   \<and> delayCount (release p msg reason) = delayCount (fst (releaseBackoff p msg reason))"
proof -
  have a: "releaseBackoff p msg (Some (DelayError t d)) =
     ((if Minute <s d
       then p\<lparr>delaySec := word_of_int (sint d div 1000000000),
              delayCount := delayCount p + 1\<rparr>
       else p), d)"
    by (simp add: releaseBackoff_def reasonDelay_def delay_seconds)
  have b: "unat (delaySec (fst (releaseBackoff p msg (Some (DelayError t d)))))
          = nat (sint d div 1000000000) mod 2 ^ 32" if m: "Minute <s d"
  proof -
    have "0 < sint d" using m by (simp add: word_sless_alt sint_Minute)
    then have "0 \<le> sint d div 1000000000" by simp
    then show ?thesis using m by (simp add: a unat_word_of_int_32)
  qed
  have c: "unat (delaySec (fst (releaseBackoff p msg (Some (DelayError t d)))))
          = nat (sint d div 1000000000)" if m: "Minute <s d" and lt: "sint d < 2 ^ 32 * 1000000000"
  proof -
    have pos: "0 < sint d" using m by (simp add: word_sless_alt sint_Minute)
    have "sint d div 1000000000 < 2 ^ 32" using lt pos by simp
    then have "nat (sint d div 1000000000) < 2 ^ 32" using pos by simp
    then show ?thesis using b [OF m] by simp
  qed
  have e: "releaseBackoff p msg reason =
          (p, if 0 <s Delay msg then Delay msg
              else exponentialBackoff (MinBackoff (opt p)) (ReservedCount msg))"
    if "\<forall>t' d'. reason \<noteq> Some (DelayError t' d')"
    using reasonDelay_no_capability [OF that] by (simp add: releaseBackoff_def)
  have f: "filter isRelease (newEvents p (release p msg reason))
       = [EvQueuerRelease msg (snd (releaseBackoff p msg reason))]"
    by (simp add: newEvents_def release_trace split: option.split)
  have g: "delaySec (release p msg reason) = delaySec (fst (releaseBackoff p msg reason))"
    "delayCount (release p msg reason) = delayCount (fst (releaseBackoff p msg reason))"
    by (cases "releaseBackoff p msg reason"; simp add: release_def Let_def emit_def split: option.split)+
  show ?thesis
    using a b c e f g by blast
qed

text \<open>
  The theorem at the example processor: an error that asks for 2 minutes is retried in
  2 minutes, with \<open>delaySec = 120\<close> and \<open>delayCount = 1\<close>; a plain error is retried after
  the backoff of the first attempt, or after the message's own delay when it has one.
\<close>

theorem release_delay_precedence_witness:
  "Minute <s 120 * Second \<and> sint (120 * Second :: Duration) < 2 ^ 32 * 1000000000
   \<and> (\<forall>t' d'. Some (ErrorString ''boom'') \<noteq> Some (DelayError t' d'))
   \<and> snd (releaseBackoff exProcessor exMessage (Some (DelayError ''later'' (120 * Second))))
       = 120 * Second
   \<and> unat (delaySec (fst (releaseBackoff exProcessor exMessage
                             (Some (DelayError ''later'' (120 * Second)))))) = 120
   \<and> delayCount (fst (releaseBackoff exProcessor exMessage
                        (Some (DelayError ''later'' (120 * Second))))) = 1
   \<and> releaseBackoff exProcessor exMessage (Some (ErrorString ''boom''))
       = (exProcessor, exponentialBackoff (30 * Second) 1)
   \<and> releaseBackoff exProcessor (exMessage\<lparr>Delay := 5 * Second\<rparr>) (Some (ErrorString ''boom''))
       = (exProcessor, 5 * Second)"
proof -
  have h1: "Minute <s 120 * Second" by (simp add: Minute_def Second_def word_sless_alt)
  have h2: "sint (120 * Second :: Duration) < 2 ^ 32 * 1000000000" by (simp add: Second_def)
  have h3: "\<forall>t' d'. Some (ErrorString ''boom'') \<noteq> Some (DelayError t' d')" by simp
  have v: "sint (120 * Second :: Duration) div 1000000000 = 120" by (simp add: Second_def)
  have dc: "delayCount exProcessor = 0" by (simp add: exProcessor_def)
  have o: "MinBackoff (opt exProcessor) = 30 * Second" "ReservedCount exMessage = 1"
    "\<not> 0 <s Delay exMessage" "0 <s 5 * Second"
    by (simp_all add: exProcessor_def exOptions_def exMessage_def Second_def word_sless_alt)
  note t1 = release_delay_precedence
    [where p = exProcessor and msg = exMessage and t = "''later''" and d = "120 * Second"
       and reason = "Some (ErrorString ''boom'')"]
  note t2 = release_delay_precedence
    [where p = exProcessor and msg = "exMessage\<lparr>Delay := 5 * Second\<rparr>" and t = "''later''"
       and d = "120 * Second" and reason = "Some (ErrorString ''boom'')"]
  have a: "releaseBackoff exProcessor exMessage (Some (DelayError ''later'' (120 * Second))) =
     (exProcessor\<lparr>delaySec := word_of_int (sint (120 * Second :: Duration) div 1000000000),
              delayCount := delayCount exProcessor + 1\<rparr>, 120 * Second)"
    using t1 h1 by simp
  have b: "unat (delaySec (fst (releaseBackoff exProcessor exMessage
                             (Some (DelayError ''later'' (120 * Second)))))) = 120"
    using t1 h1 h2 v by simp
  have c: "releaseBackoff exProcessor exMessage (Some (ErrorString ''boom''))
       = (exProcessor, exponentialBackoff (30 * Second) 1)"
    using t1 h3 o by simp
  have d: "releaseBackoff exProcessor (exMessage\<lparr>Delay := 5 * Second\<rparr>) (Some (ErrorString ''boom''))
       = (exProcessor, 5 * Second)"
    using t2 h3 o by simp
  show ?thesis using h1 h2 h3 a b c d dc by simp
qed

text \<open>
  Claim C3 as stated fails: for an error that asks for 4294967301 seconds, the delay is
  used as it is, but \<open>delaySec\<close> is set to 5, not to the delay in seconds.
\<close>

theorem delaySec_keeps_low_32_bits:
  "Minute <s 4294967301 * Second
   \<and> sint (4294967301 * Second :: Duration) div 1000000000 = 4294967301
   \<and> snd (releaseBackoff exProcessor exMessage
             (Some (DelayError ''later'' (4294967301 * Second)))) = 4294967301 * Second
   \<and> unat (delaySec (fst (releaseBackoff exProcessor exMessage
                             (Some (DelayError ''later'' (4294967301 * Second)))))) = 5
   \<and> unat (delaySec (release exProcessor exMessage
                        (Some (DelayError ''later'' (4294967301 * Second))))) = 5
   \<and> unat (delaySec (release exProcessor exMessage
                        (Some (DelayError ''later'' (4294967301 * Second)))))
       \<noteq> nat (sint (4294967301 * Second :: Duration) div 1000000000)"
  by (simp add: release_def releaseBackoff_def reasonDelay_def Let_def emit_def exProcessor_def
      exQueuer_def Minute_def Second_def word_sless_alt signed_divide_int_def)

section \<open>Messages scheduled for later\<close>

text \<open>
  Claim C8. For a message with \<open>Delay msg > 0\<close>, \<open>Process\<close> calls \<open>release msg None\<close> and
  returns \<^verbatim>\<open>nil\<close>. The handler is not invoked: the only call is \<^verbatim>\<open>Queuer.Release\<close> with
  exactly the delay \<open>Delay msg\<close> (followed by a log line when the queue reports a failure),
  the counters \<open>processed\<close>, \<open>retries\<close>, \<open>fails\<close> and \<open>avgDuration\<close> are untouched, and
  \<open>inFlight\<close> goes down by one.
\<close>

theorem Process_delayed_message_released:
  assumes "0 <s Delay msg"
  shows "Process p msg s = (release p msg None, None)
    \<and> newEvents p (fst (Process p msg s))
        = EvQueuerRelease msg (Delay msg)
          # (case Release (q p) msg (Delay msg) of
               None \<Rightarrow> []
             | Some err \<Rightarrow> [EvLog (LogReleaseFailed err)])
    \<and> inFlight (fst (Process p msg s)) = inFlight p - 1
    \<and> processed (fst (Process p msg s)) = processed p
    \<and> retries (fst (Process p msg s)) = retries p
    \<and> fails (fst (Process p msg s)) = fails p
    \<and> avgDuration (fst (Process p msg s)) = avgDuration p"
proof -
  have r: "Process p msg s = (release p msg None, None)"
    using assms by (simp add: Process_cases)
  have d: "snd (releaseBackoff p msg None) = Delay msg"
    using assms by (simp add: releaseBackoff_def reasonDelay_def)
  have t: "newEvents p (release p msg None)
        = EvQueuerRelease msg (Delay msg)
          # (case Release (q p) msg (Delay msg) of
               None \<Rightarrow> []
             | Some err \<Rightarrow> [EvLog (LogReleaseFailed err)])"
    by (simp add: newEvents_def release_trace d)
  show ?thesis using t by (simp add: r release_frame)
qed

text \<open>The theorem at a message scheduled five seconds ahead.\<close>

theorem Process_delayed_message_released_witness:
  "0 <s Delay (exMessage\<lparr>Delay := 5 * Second\<rparr>)
   \<and> snd (Process exProcessor (exMessage\<lparr>Delay := 5 * Second\<rparr>) 0) = None
   \<and> newEvents exProcessor (fst (Process exProcessor (exMessage\<lparr>Delay := 5 * Second\<rparr>) 0))
       = [EvQueuerRelease (exMessage\<lparr>Delay := 5 * Second\<rparr>) (5 * Second)]"
proof -
  have h: "0 <s Delay (exMessage\<lparr>Delay := 5 * Second\<rparr>)"
    by (simp add: Second_def word_sless_alt)
  have v: "Release (q exProcessor) (exMessage\<lparr>Delay := 5 * Second\<rparr>) (5 * Second) = None"
    by (simp add: exProcessor_def exQueuer_def)
  note t = Process_delayed_message_released [OF h, of exProcessor 0]
  have e1: "snd (Process exProcessor (exMessage\<lparr>Delay := 5 * Second\<rparr>) 0) = None"
    using t by simp
  have e2: "newEvents exProcessor (fst (Process exProcessor (exMessage\<lparr>Delay := 5 * Second\<rparr>) 0))
       = EvQueuerRelease (exMessage\<lparr>Delay := 5 * Second\<rparr>) (Delay (exMessage\<lparr>Delay := 5 * Second\<rparr>))
          # (case Release (q exProcessor) (exMessage\<lparr>Delay := 5 * Second\<rparr>) (Delay (exMessage\<lparr>Delay := 5 * Second\<rparr>)) of
               None \<Rightarrow> []
             | Some err \<Rightarrow> [EvLog (LogReleaseFailed err)])"
    using t by (rule conjunct2 [THEN conjunct1])
  show ?thesis using h e1 e2 v by simp
qed

section \<open>The counter of pending deletions\<close>

lemma not_pred_word: "NOT (word_of_int (int n - 1) :: 32 word) = - word_of_nat n"
  by (simp add: not_eq_complement)

lemma unat_add_of_nat: "unat (a + word_of_nat k :: 32 word) = (unat a + k) mod 2 ^ 32"
  by (simp add: unat_word_ariths unat_of_nat mod_add_right_eq)

text \<open>
  Claim C9. The flush function \<open>deleteBatch\<close> takes the batch size off \<open>deleting\<close>: it adds
  the complement of \<open>len - 1\<close> to the unsigned 32-bit counter, which is the subtraction of
  \<open>len\<close> modulo \<open>2 ^ 32\<close>. This holds for every batch and every answer of
  \<^verbatim>\<open>Queuer.DeleteBatch\<close>, an error included.
\<close>

theorem deleteBatch_decrements_deleting:
  "deleting (deleteBatch p msgs) = deleting p + NOT (word_of_int (int (length msgs) - 1))
   \<and> deleting (deleteBatch p msgs) = deleting p - word_of_nat (length msgs)
   \<and> unat (deleting (deleteBatch p msgs))
       = (unat (deleting p) + (2 ^ 32 - length msgs mod 2 ^ 32)) mod 2 ^ 32"
proof -
  have a: "deleting (deleteBatch p msgs) = deleting p + NOT (word_of_int (int (length msgs) - 1))"
    by (simp add: deleteBatch_def Let_def emit_def split: option.split)
  have b: "deleting (deleteBatch p msgs) = deleting p - word_of_nat (length msgs)"
    unfolding a not_pred_word by simp
  have c: "unat (deleting p - word_of_nat (length msgs) :: 32 word)
       = (unat (deleting p) + (2 ^ 32 - length msgs mod 2 ^ 32)) mod 2 ^ 32"
  proof -
    let ?k = "2 ^ 32 - length msgs mod 2 ^ 32 :: nat"
    have le: "length msgs mod 2 ^ 32 \<le> (2 ^ 32 :: nat)" by simp
    have z: "(word_of_nat (2 ^ 32) :: 32 word) = 0" by simp
    have m: "(word_of_nat (length msgs mod 2 ^ 32) :: 32 word) = word_of_nat (length msgs)"
      by (simp add: word_of_nat_eq_iff take_bit_eq_mod)
    have "(word_of_nat ?k :: 32 word) = word_of_nat (2 ^ 32) - word_of_nat (length msgs mod 2 ^ 32)"
      using le by (rule of_nat_diff)
    then have k: "(word_of_nat ?k :: 32 word) = - word_of_nat (length msgs)"
      unfolding z m by simp
    have "unat (deleting p + word_of_nat ?k :: 32 word) = (unat (deleting p) + ?k) mod 2 ^ 32"
      by (rule unat_add_of_nat)
    then show ?thesis unfolding k by simp
  qed
  from a b c show ?thesis by simp
qed

section \<open>Enqueueing never reports an error\<close>

text \<open>
  Claim C10. \<open>Add\<close> and \<open>AddDelay\<close> never report an error to the caller, for any delay:
  whenever either returns, it returns \<^verbatim>\<open>nil\<close>. \<open>Add\<close> returns as soon as the channel has
  room, and \<open>AddDelay\<close> with a non-zero delay always returns.
\<close>

theorem Add_never_reports_error:
  "reported (snd (Add p msg)) = None
   \<and> reported (snd (AddDelay p msg d)) = None
   \<and> (length (ch p) < BufferSize (opt p) \<longrightarrow> snd (Add p msg) = Returned None)
   \<and> (d \<noteq> 0 \<longrightarrow> snd (AddDelay p msg d) = Returned None)"
  by (simp add: Add_def AddDelay_def queueMessage_def Let_def)

text \<open>The theorem at the example processor, whose channel is empty, and a delay of 1s.\<close>

theorem Add_never_reports_error_witness:
  "length (ch exProcessor) < BufferSize (opt exProcessor) \<and> Second \<noteq> 0
   \<and> snd (Add exProcessor exMessage) = Returned None
   \<and> snd (AddDelay exProcessor exMessage Second) = Returned None"
proof -
  have h1: "length (ch exProcessor) < BufferSize (opt exProcessor)"
    by (simp add: exProcessor_def exOptions_def)
  have h2: "Second \<noteq> 0" by (simp add: Second_def)
  show ?thesis
    using Add_never_reports_error [of exProcessor exMessage Second] h1 h2 by simp
qed

section \<open>Exponential backoff\<close>

text \<open>
  Claim C4. \<open>exponentialBackoff b k\<close> is \<open>min (b << (k - 1)) maxBackoff\<close>, and it is meant
  to be monotone and clamped: \<open>exponentialBackoff b k \<le> exponentialBackoff b (k + 1) \<le>
  maxBackoff\<close>. The shift is made on a signed 64-bit value and is not guarded against
  overflow. With a base of one second the result is the clamp of 12 hours at \<open>k = 34\<close>, and
  at \<open>k = 35\<close> the shifted value has wrapped to a negative duration, which passes the
  clamp: the backoff for the later retry is smaller than for the earlier one.
\<close>

theorem exponentialBackoff_overflow_not_monotone:
  "sint (exponentialBackoff Second 34) = 43200000000000
   \<and> sint (exponentialBackoff Second 35) = - 1266874889709551616
   \<and> exponentialBackoff Second 35 <s exponentialBackoff Second 34"
  by (simp add: exponentialBackoff_def Let_def Second_def Minute_def Hour_def maxBackoff_def word_sless_alt)

text \<open>
  What does hold: the result never exceeds \<open>maxBackoff\<close>, it is the signed minimum of the
  shifted value and \<open>maxBackoff\<close>, and it is monotone in the retry count as long as the
  base is not negative and the shift does not overflow.
\<close>

lemma exponentialBackoff_clamped: "exponentialBackoff b k \<le>s maxBackoff"
  by (simp add: exponentialBackoff_def Let_def word_sle_eq word_sless_alt)

lemma sint_maxBackoff: "sint maxBackoff = 43200000000000"
  by (simp add: maxBackoff_def Hour_def Minute_def Second_def)

lemma exponentialBackoff_min:
  "sint (exponentialBackoff b k) = min (sint (push_bit (nat ((k - 1) mod 2 ^ 64)) b)) (sint maxBackoff)"
  by (simp add: exponentialBackoff_def Let_def word_sless_alt min_def)

lemma sint_push_bit_no_overflow:
  fixes b :: "64 word"
  assumes "0 \<le> sint b" and "sint b * 2 ^ n < 2 ^ 63"
  shows "sint (push_bit n b) = sint b * 2 ^ n"
proof -
  have "(word_of_int (sint b * 2 ^ n) :: 64 word) = push_bit n b"
    by (simp add: push_bit_eq_mult)
  then have "sint (push_bit n b) = sint (word_of_int (sint b * 2 ^ n) :: 64 word)"
    by simp
  also have "\<dots> = signed_take_bit 63 (sint b * 2 ^ n)"
    by (simp only: sint_sbintrunc') simp
  also have "\<dots> = sint b * 2 ^ n"
  proof (rule signed_take_bit_int_eq_self)
    have "0 \<le> sint b * 2 ^ n" using assms(1) by simp
    then have "- 9223372036854775808 \<le> sint b * 2 ^ n" by linarith
    then show "- (2 ^ 63) \<le> sint b * 2 ^ n" by simp
    show "sint b * 2 ^ n < 2 ^ 63" by (fact assms(2))
  qed
  finally show ?thesis .
qed

lemma exponentialBackoff_mono_no_overflow:
  assumes "0 \<le> sint b" and "1 \<le> k" and "sint b * 2 ^ nat k < 2 ^ 63"
  shows "exponentialBackoff b k \<le>s exponentialBackoff b (k + 1)"
proof (cases "sint b = 0")
  case True
  then have "b = 0" by (simp add: signed_eq_0_iff)
  then show ?thesis by (simp add: exponentialBackoff_def Let_def)
next
  case False
  with assms(1) have pos: "0 < sint b" by simp
  have "1 * (2::int) ^ nat k \<le> sint b * 2 ^ nat k"
    using pos by (intro mult_right_mono) simp_all
  then have "(2::int) ^ nat k \<le> sint b * 2 ^ nat k" by simp
  from this assms(3) have "(2::int) ^ nat k < 2 ^ 63" by (rule le_less_trans)
  then have klt: "nat k < 63" by (rule power_less_imp_less_exp [rotated]) simp
  have n1: "nat ((k - 1) mod 2 ^ 64) = nat k - 1" using assms(2) klt by (simp add: nat_diff_distrib)
  have n2: "nat ((k + 1 - 1) mod 2 ^ 64) = nat k" using assms(2) klt by simp
  have le: "sint b * 2 ^ (nat k - 1) \<le> sint b * 2 ^ nat k"
    using pos by (simp add: power_increasing)
  have s1: "sint (push_bit (nat k - 1) b) = sint b * 2 ^ (nat k - 1)"
    using assms(1,3) le by (intro sint_push_bit_no_overflow) simp_all
  have s2: "sint (push_bit (nat k) b) = sint b * 2 ^ nat k"
    using assms(1,3) by (intro sint_push_bit_no_overflow) simp_all
  show ?thesis
    unfolding word_sle_eq exponentialBackoff_min n1 n2 s1 s2
    using le by (simp add: min_def)
qed

section \<open>The pause controller\<close>

text \<open>
  Claim C5. \<open>errCount\<close> is meant to be incremented on every handler failure, so that more
  than 100 failures make \<open>paused\<close> answer one minute. \<open>Process\<close> never increments it: at the
  example processor, whose handler fails, the dispatch returns the handler's error and
  leaves \<open>errCount\<close> at 0.
\<close>

theorem Process_failure_leaves_errCount:
  "\<not> 0 <s Delay exMessage
   \<and> handler exProcessor exMessage = Some (ErrorString ''boom'')
   \<and> snd (Process exProcessor exMessage 0) = Some (ErrorString ''boom'')
   \<and> errCount exProcessor = 0
   \<and> errCount (fst (Process exProcessor exMessage 0)) = 0"
  by (simp add: Process_cases release_frame exProcessor_def exMessage_def exOptions_def
      updateAvgDuration_def emit_def)

text \<open>
  In general a dispatch leaves \<open>errCount\<close> as it is or resets it, so it stays 0 over any
  number of failed attempts. The second half of the claim holds of \<open>paused\<close> itself.
\<close>

lemma Process_errCount:
  "errCount (fst (Process p m s)) = (if \<not> 0 <s Delay m \<and> handler p m = None then 0 else errCount p)"
  by (simp add: Process_cases release_frame delete_frame updateAvgDuration_def emit_def split: option.split)

lemma redeliver_errCount:
  "errCount p = 0 \<Longrightarrow> errCount (fst (redeliver n p m s)) = 0"
proof (induction n arbitrary: p m)
  case 0
  then show ?case by simp
next
  case (Suc n)
  have "errCount (fst (Process p m s)) = 0" using Suc.prems by (simp add: Process_errCount)
  then show ?case using Suc.IH by (simp add: case_prod_beta)
qed

lemma paused_errCount:
  "\<not> 100 < delayCount p \<Longrightarrow> 100 < errCount p \<Longrightarrow> paused p = Minute"
  by (simp add: paused_def)

section \<open>Stopping\<close>

lemma Batcher_Wait_result: "snd (Batcher_Wait p w) = w"
  by (simp add: Batcher_Wait_def Let_def)





section \<open>Processing at most one message\<close>

text \<open>
  Claim C7, as amended. \<open>ProcessOne\<close> first takes a message from \<open>ch\<close> without blocking.
  If \<open>ch\<close> is empty it calls \<^verbatim>\<open>Queuer.ReserveN(1)\<close>; if that call fails with an error
  other than \<open>ErrNotSupported\<close>, \<open>ProcessOne\<close> returns that error; otherwise, if the call
  yields no message, it returns the error "queue is empty"; otherwise it increments
  \<open>inFlight\<close> and takes the first message. On the message it invokes \<open>Process\<close>, then
  \<^verbatim>\<open>Batcher.Wait\<close>, and returns the first non-nil error of the two.
\<close>

theorem ProcessOne_result:
  "ProcessOne p s w =
     (let dispatch = (\<lambda>p1 m. (fst (Batcher_Wait (fst (Process p1 m s)) w),
                               (case snd (Process p1 m s) of Some e \<Rightarrow> Some e | None \<Rightarrow> w)));
          p1 = emit (EvQueuerReserveN 1) p
      in case ch p of
           m # rest \<Rightarrow> dispatch (p\<lparr>ch := rest\<rparr>) m
         | [] \<Rightarrow>
             (if snd (ReserveN (q p) 1) \<noteq> None \<and> snd (ReserveN (q p) 1) \<noteq> Some ErrNotSupported
              then (p1, snd (ReserveN (q p) 1))
              else (case fst (ReserveN (q p) 1) of
                      [] \<Rightarrow> (p1, Some (ErrorString ''queue is empty''))
                    | m # ms \<Rightarrow> dispatch (p1\<lparr>inFlight := inFlight p + 1\<rparr>) m)))"
  by (cases "ReserveN (q p) 1")
    (auto simp add: ProcessOne_def reserveOne_def Let_def case_prod_beta emit_def
       Batcher_Wait_result split: list.split option.split)

text \<open>
  Claim C7 as stated fails: with \<open>ch\<close> empty and a \<^verbatim>\<open>ReserveN\<close> that yields no message
  and an error, \<open>ProcessOne\<close> returns that error, not "queue is empty".
\<close>

theorem ProcessOne_reserve_error:
  "ch (exProcessor\<lparr>q := failingQueuer\<rparr>) = []
   \<and> fst (ReserveN (q (exProcessor\<lparr>q := failingQueuer\<rparr>)) 1) = []
   \<and> snd (ProcessOne (exProcessor\<lparr>q := failingQueuer\<rparr>) 0 None)
       = Some (ErrorString ''connection refused'')
   \<and> snd (ProcessOne (exProcessor\<lparr>q := failingQueuer\<rparr>) 0 None)
       \<noteq> Some (ErrorString ''queue is empty'')"
  by (simp add: ProcessOne_def reserveOne_def Let_def emit_def exProcessor_def failingQueuer_def)

end
